theory Spec2Isabelle
  imports Complex_Main "HOL-Library.Sublist" "HOL-Library.DAList"
begin

section \<open>Python strings\<close>

text \<open>
  A Python \<open>str\<close> is modelled as a list of 8-bit characters, each read as a code point
  below 256; \<open>bytes\<close> is a list of the same characters, read as octets. The string
  methods used by \<open>main.py\<close> are written out on that range.
\<close>

type_synonym bytes = string

text \<open>\<open>str.isspace\<close> on one code point: what \<open>str.split()\<close> and \<open>str.strip()\<close> treat as
  white space (TAB..CR, FS..US, SPACE, NEL, NBSP).\<close>

definition py_isspace :: "char \<Rightarrow> bool" where
  "py_isspace c =
     (let n = (of_char c :: nat)
      in (9 \<le> n \<and> n \<le> 13) \<or> (28 \<le> n \<and> n \<le> 32) \<or> n = 133 \<or> n = 160)"

text \<open>\<open>str.lower\<close> on one code point: A..Z and the capital letters of Latin-1 (all of
  0xC0..0xDE but the multiplication sign 0xD7) move up by 32.\<close>

definition lower_char :: "char \<Rightarrow> char" where
  "lower_char c =
     (let n = (of_char c :: nat)
      in if (65 \<le> n \<and> n \<le> 90) \<or> (192 \<le> n \<and> n \<le> 222 \<and> n \<noteq> 215)
         then char_of (n + 32) else c)"

definition py_lower :: "string \<Rightarrow> string" where
  "py_lower s = map lower_char s"

text \<open>\<open>text.split()\<close>: the maximal runs of characters that are not white space.\<close>

fun split_ws :: "string \<Rightarrow> string \<Rightarrow> string list" where
  "split_ws cur [] = (if cur = [] then [] else [cur])"
| "split_ws cur (c # cs) =
     (if py_isspace c
      then (if cur = [] then split_ws [] cs else cur # split_ws [] cs)
      else split_ws (cur @ [c]) cs)"

definition py_split :: "string \<Rightarrow> string list" where
  "py_split s = split_ws [] s"

text \<open>\<open>sep.join(xs)\<close>.\<close>

fun py_join :: "string \<Rightarrow> string list \<Rightarrow> string" where
  "py_join sep [] = []"
| "py_join sep [x] = x"
| "py_join sep (x # y # ys) = x @ sep @ py_join sep (y # ys)"

text \<open>\<open>text.find(sub)\<close>: the lowest index at which \<open>sub\<close> occurs, or \<open>-1\<close>.\<close>

fun find_from :: "nat \<Rightarrow> string \<Rightarrow> string \<Rightarrow> int" where
  "find_from i sub [] = (if sub = [] then int i else - 1)"
| "find_from i sub (c # cs) =
     (if prefix sub (c # cs) then int i else find_from (Suc i) sub cs)"

definition py_find :: "string \<Rightarrow> string \<Rightarrow> int" where
  "py_find text sub = find_from 0 sub text"

text \<open>\<open>sub in text\<close>.\<close>

fun py_contains :: "string \<Rightarrow> string \<Rightarrow> bool" where
  "py_contains sub [] = (sub = [])"
| "py_contains sub (c # cs) = (prefix sub (c # cs) \<or> py_contains sub cs)"

text \<open>Slices with integer bounds, \<open>xs[a:b]\<close>: a negative bound counts from the end, and
  both bounds are clamped to the length.\<close>

definition slice_index :: "nat \<Rightarrow> int \<Rightarrow> nat" where
  "slice_index n i = (if i < 0 then nat (max 0 (int n + i)) else min n (nat i))"

definition py_slice :: "'a list \<Rightarrow> int \<Rightarrow> int \<Rightarrow> 'a list" where
  "py_slice xs a b =
     (let lo = slice_index (length xs) a; hi = slice_index (length xs) b
      in take (hi - lo) (drop lo xs))"

text \<open>\<open>s.split(sep)\<close> with a one-character separator: the pieces between separators,
  empty pieces kept.\<close>

fun split_on :: "char \<Rightarrow> string \<Rightarrow> string \<Rightarrow> string list" where
  "split_on sep cur [] = [cur]"
| "split_on sep cur (c # cs) =
     (if c = sep then cur # split_on sep [] cs else split_on sep (cur @ [c]) cs)"

definition py_split_sep :: "char \<Rightarrow> string \<Rightarrow> string list" where
  "py_split_sep sep s = split_on sep [] s"

text \<open>\<open>s.strip()\<close>.\<close>

definition py_strip :: "string \<Rightarrow> string" where
  "py_strip s = rev (dropWhile py_isspace (rev (dropWhile py_isspace s)))"

section \<open>Paths\<close>

text \<open>A path is the string \<open>str(path)\<close>; \<open>dir / name\<close> puts a slash between a directory
  and a relative name. \<open>Path(filename).suffix\<close> is pathlib's: the final component of the
  path (empty components and \<open>.\<close> dropped), from its last dot on, when that dot is
  neither the first nor the last character of the component.\<close>

definition path_join :: "string \<Rightarrow> string \<Rightarrow> string" where
  "path_join dir name = dir @ ''/'' @ name"

definition path_name :: "string \<Rightarrow> string" where
  "path_name filename =
     (case filter (\<lambda>p. p \<noteq> [] \<and> p \<noteq> ''.'') (py_split_sep CHR ''/'' filename) of
        [] \<Rightarrow> []
      | p # ps \<Rightarrow> last (p # ps))"

definition rfind_char :: "char \<Rightarrow> string \<Rightarrow> int" where
  "rfind_char c s =
     (let k = length (takeWhile (\<lambda>d. d \<noteq> c) (rev s))
      in if k = length s then - 1 else int (length s) - 1 - int k)"

definition path_suffix :: "string \<Rightarrow> string" where
  "path_suffix filename =
     (let name = path_name filename;
          i = rfind_char CHR ''.'' name
      in if 0 < i \<and> i < int (length name) - 1 then drop (nat i) name else [])"

section \<open>TextChunker: \<open>MultimodalRAG._chunk_text\<close>\<close>

text \<open>The \<open>for word in words\<close> loop, with its three variables \<open>chunks\<close>,
  \<open>current_chunk\<close> and \<open>current_size\<close>, followed by the final flush.\<close>

fun chunk_loop :: "int \<Rightarrow> string list \<Rightarrow> string list \<Rightarrow> string list \<Rightarrow> int \<Rightarrow> string list" where
  "chunk_loop chunk_size [] chunks current_chunk current_size =
     (if current_chunk \<noteq> [] then chunks @ [py_join '' '' current_chunk] else chunks)"
| "chunk_loop chunk_size (word # words) chunks current_chunk current_size =
     (if current_size + int (length word) > chunk_size \<and> current_chunk \<noteq> []
      then chunk_loop chunk_size words (chunks @ [py_join '' '' current_chunk]) [word]
             (int (length word))
      else chunk_loop chunk_size words chunks (current_chunk @ [word])
             (current_size + int (length word) + 1))"

definition chunk_text :: "string \<Rightarrow> int \<Rightarrow> string list" where
  "chunk_text text chunk_size = chunk_loop chunk_size (py_split text) [] [] 0"

section \<open>Snippets: \<open>MultimodalRAG._get_snippet\<close>\<close>

definition get_snippet :: "string \<Rightarrow> string \<Rightarrow> int \<Rightarrow> string" where
  "get_snippet text query context_size =
     (let lower_text = py_lower text;
          lower_query = py_lower query;
          index = py_find lower_text lower_query
      in if index = - 1 then py_slice text 0 context_size @ ''...''
         else
           let start = max 0 (index - context_size div 2);
               end = min (int (length text)) (index + int (length query) + context_size div 2);
               snippet = py_slice text start end;
               snippet = (if start > 0 then ''...'' @ snippet else snippet);
               snippet = (if end < int (length text) then snippet @ ''...'' else snippet)
           in snippet)"

section \<open>External libraries\<close>

text \<open>
  \<open>main.py\<close> calls \<open>hashlib\<close>, the UTF-8 codec and four optional parsers (PyPDF2,
  python-docx, moviepy, librosa). They are not part of the repository: the model takes
  them as a record of functions. A parser call made inside \<open>try\<close> has one of three
  outcomes: it returns, the \<open>import\<close> fails, or it raises an exception \<open>e\<close>, of which
  the code keeps \<open>str(e)\<close>.
\<close>

datatype 'a outcome = Returned 'a | ImportError | Raised string

record library =
  md5_hexdigest :: "bytes \<Rightarrow> string"
  utf8_decode_ignore :: "bytes \<Rightarrow> string"
  pdf_page_texts :: "bytes \<Rightarrow> string list outcome"
  docx_paragraph_texts :: "bytes \<Rightarrow> string list outcome"
  video_clip_duration :: "string \<Rightarrow> bytes \<Rightarrow> real outcome"
  librosa_load :: "string \<Rightarrow> bytes \<Rightarrow> (real \<times> int) outcome"

section \<open>The data model\<close>

text \<open>A record of the metadata index: the dictionary built by \<open>process_document\<close>,
  \<open>process_video\<close> or \<open>process_audio\<close>. The keys that only some kinds carry are
  optional.\<close>

record file_metadata =
  filename :: string
  file_type :: string
  file_extension :: string
  file_hash :: string
  file_path :: string
  text_content :: "string option"
  full_text_length :: "nat option"
  chunks :: "string list option"
  duration :: "real option"
  transcription :: "string option"
  frames_extracted :: "int option"
  sample_rate :: "int option"

text \<open>
  The state of a \<open>MultimodalRAG\<close> object: the storage directory, the files written
  below it, the dictionary \<open>self.metadata\<close> and the contents of \<open>metadata.json\<close>
  (\<open>None\<close> while the file does not exist). A Python dictionary keeps its keys distinct
  and in insertion order, and assigning to a key that is present replaces its value in
  place: an association list with distinct keys and its \<open>update\<close>.
\<close>

record rag_system =
  storage_dir :: string
  files :: "string \<Rightarrow> bytes option"
  metadata :: "(string, file_metadata) alist"
  metadata_file :: "(string, file_metadata) alist option"

definition doc_dir :: "rag_system \<Rightarrow> string" where
  "doc_dir st = path_join (storage_dir st) ''documents''"

definition video_dir :: "rag_system \<Rightarrow> string" where
  "video_dir st = path_join (storage_dir st) ''videos''"

definition audio_dir :: "rag_system \<Rightarrow> string" where
  "audio_dir st = path_join (storage_dir st) ''audio''"

text \<open>\<open>with open(saved_path, 'wb') as f: f.write(file_content)\<close>\<close>

definition write_file :: "rag_system \<Rightarrow> string \<Rightarrow> bytes \<Rightarrow> rag_system" where
  "write_file st path content = st\<lparr>files := (files st)(path \<mapsto> content)\<rparr>"

definition save_metadata :: "rag_system \<Rightarrow> rag_system" where
  "save_metadata st = st\<lparr>metadata_file := Some (metadata st)\<rparr>"

definition get_file_hash :: "library \<Rightarrow> bytes \<Rightarrow> string" where
  "get_file_hash lib file_content = md5_hexdigest lib file_content"

section \<open>Extractors\<close>

definition extract_pdf_text :: "library \<Rightarrow> bytes \<Rightarrow> string" where
  "extract_pdf_text lib file_content =
     (case pdf_page_texts lib file_content of
        Returned pages \<Rightarrow> concat (map (\<lambda>page. page @ [CHR 0x0A]) pages)
      | ImportError \<Rightarrow> ''PDF text extraction requires PyPDF2 library''
      | Raised e \<Rightarrow> ''Error extracting PDF text: '' @ e)"

definition extract_docx_text :: "library \<Rightarrow> bytes \<Rightarrow> string" where
  "extract_docx_text lib file_content =
     (case docx_paragraph_texts lib file_content of
        Returned paragraphs \<Rightarrow> concat (map (\<lambda>paragraph. paragraph @ [CHR 0x0A]) paragraphs)
      | ImportError \<Rightarrow> ''DOCX text extraction requires python-docx library''
      | Raised e \<Rightarrow> ''Error extracting DOCX text: '' @ e)"

record video_info =
  video_duration :: real
  video_transcription :: string
  frames_count :: int

record audio_info =
  audio_duration :: real
  audio_transcription :: string
  audio_sample_rate :: int

text \<open>\<open>int(x)\<close> on a number: rounding towards zero.\<close>

definition py_int :: "real \<Rightarrow> int" where
  "py_int x = (if 0 \<le> x then \<lfloor>x\<rfloor> else \<lceil>x\<rceil>)"

definition extract_video_info :: "library \<Rightarrow> string \<Rightarrow> bytes \<Rightarrow> video_info" where
  "extract_video_info lib path file_content =
     (case video_clip_duration lib path file_content of
        Returned d \<Rightarrow>
          \<lparr>video_duration = d,
           video_transcription =
             ''Video transcription requires Whisper or similar speech-to-text service'',
           frames_count = min 10 (py_int d)\<rparr>
      | ImportError \<Rightarrow>
          \<lparr>video_duration = 0,
           video_transcription = ''Video processing requires moviepy library'',
           frames_count = 0\<rparr>
      | Raised e \<Rightarrow>
          \<lparr>video_duration = 0,
           video_transcription = ''Error processing video: '' @ e,
           frames_count = 0\<rparr>)"

definition extract_audio_info :: "library \<Rightarrow> string \<Rightarrow> bytes \<Rightarrow> audio_info" where
  "extract_audio_info lib path file_content =
     (case librosa_load lib path file_content of
        Returned (d, sr) \<Rightarrow>
          \<lparr>audio_duration = d,
           audio_transcription =
             ''Audio transcription requires Whisper or similar speech-to-text service'',
           audio_sample_rate = sr\<rparr>
      | ImportError \<Rightarrow>
          \<lparr>audio_duration = 0,
           audio_transcription = ''Audio processing requires librosa library'',
           audio_sample_rate = 0\<rparr>
      | Raised e \<Rightarrow>
          \<lparr>audio_duration = 0,
           audio_transcription = ''Error processing audio: '' @ e,
           audio_sample_rate = 0\<rparr>)"

section \<open>Ingestion: \<open>process_document\<close>, \<open>process_video\<close>, \<open>process_audio\<close>\<close>

text \<open>The dictionary an ingestion returns. \<open>status\<close> and \<open>type\<close> are always there;
  the other keys depend on the kind.\<close>

record process_result =
  result_file_hash :: string
  status :: string
  result_type :: string
  text_preview :: "string option"
  chunks_count :: "nat option"
  result_duration :: "real option"
  transcription_preview :: "string option"

text \<open>The \<open>if\<close>/\<open>elif\<close> chain of \<open>process_document\<close> that picks the extractor by the
  extension: the full extracted text of a document.\<close>

definition document_text :: "library \<Rightarrow> string \<Rightarrow> bytes \<Rightarrow> string" where
  "document_text lib ext file_content =
     (if ext = ''.txt'' then utf8_decode_ignore lib file_content
      else if ext = ''.pdf'' then extract_pdf_text lib file_content
      else if ext \<in> set [''.docx'', ''.doc''] then extract_docx_text lib file_content
      else ''Unsupported document type: '' @ ext)"

definition process_document ::
  "library \<Rightarrow> rag_system \<Rightarrow> bytes \<Rightarrow> string \<Rightarrow> rag_system \<times> process_result" where
  "process_document lib st file_content file_name =
     (let hash = get_file_hash lib file_content;
          ext = py_lower (path_suffix file_name);
          saved_path = path_join (doc_dir st) (hash @ ext);
          st = write_file st saved_path file_content;
          text_content = document_text lib ext file_content;
          record =
            \<lparr>filename = file_name,
             file_type = ''document'',
             file_extension = ext,
             file_hash = hash,
             file_path = saved_path,
             text_content = Some (take 1000 text_content),
             full_text_length = Some (length text_content),
             chunks = Some (chunk_text text_content 500),
             duration = None,
             transcription = None,
             frames_extracted = None,
             sample_rate = None\<rparr>;
          st = st\<lparr>metadata := DAList.update hash record (metadata st)\<rparr>;
          st = save_metadata st
      in (st,
          \<lparr>result_file_hash = hash,
           status = ''processed'',
           result_type = ''document'',
           text_preview = Some (take 200 text_content),
           chunks_count = Some (length (chunk_text text_content 500)),
           result_duration = None,
           transcription_preview = None\<rparr>))"

definition process_video ::
  "library \<Rightarrow> rag_system \<Rightarrow> bytes \<Rightarrow> string \<Rightarrow> rag_system \<times> process_result" where
  "process_video lib st file_content file_name =
     (let hash = get_file_hash lib file_content;
          ext = py_lower (path_suffix file_name);
          saved_path = path_join (video_dir st) (hash @ ext);
          st = write_file st saved_path file_content;
          info = extract_video_info lib saved_path file_content;
          record =
            \<lparr>filename = file_name,
             file_type = ''video'',
             file_extension = ext,
             file_hash = hash,
             file_path = saved_path,
             text_content = None,
             full_text_length = None,
             chunks = None,
             duration = Some (video_duration info),
             transcription = Some (video_transcription info),
             frames_extracted = Some (frames_count info),
             sample_rate = None\<rparr>;
          st = st\<lparr>metadata := DAList.update hash record (metadata st)\<rparr>;
          st = save_metadata st
      in (st,
          \<lparr>result_file_hash = hash,
           status = ''processed'',
           result_type = ''video'',
           text_preview = None,
           chunks_count = None,
           result_duration = Some (video_duration info),
           transcription_preview = Some (take 200 (video_transcription info))\<rparr>))"

definition process_audio ::
  "library \<Rightarrow> rag_system \<Rightarrow> bytes \<Rightarrow> string \<Rightarrow> rag_system \<times> process_result" where
  "process_audio lib st file_content file_name =
     (let hash = get_file_hash lib file_content;
          ext = py_lower (path_suffix file_name);
          saved_path = path_join (audio_dir st) (hash @ ext);
          st = write_file st saved_path file_content;
          info = extract_audio_info lib saved_path file_content;
          record =
            \<lparr>filename = file_name,
             file_type = ''audio'',
             file_extension = ext,
             file_hash = hash,
             file_path = saved_path,
             text_content = None,
             full_text_length = None,
             chunks = None,
             duration = Some (audio_duration info),
             transcription = Some (audio_transcription info),
             frames_extracted = None,
             sample_rate = Some (audio_sample_rate info)\<rparr>;
          st = st\<lparr>metadata := DAList.update hash record (metadata st)\<rparr>;
          st = save_metadata st
      in (st,
          \<lparr>result_file_hash = hash,
           status = ''processed'',
           result_type = ''audio'',
           text_preview = None,
           chunks_count = None,
           result_duration = Some (audio_duration info),
           transcription_preview = Some (take 200 (audio_transcription info))\<rparr>))"

section \<open>SearchEngine: \<open>MultimodalRAG.search\<close>\<close>

record search_result =
  hit_file_hash :: string
  hit_filename :: string
  hit_file_type :: string
  relevance_snippet :: string
  hit_metadata :: file_metadata

text \<open>\<open>if file_types and metadata['file_type'] not in file_types: continue\<close>. The filter
  is an optional list, and Python reads both \<open>None\<close> and the empty list as false: then
  no record is skipped.\<close>

definition excluded :: "string list option \<Rightarrow> file_metadata \<Rightarrow> bool" where
  "excluded file_types record =
     (case file_types of
        None \<Rightarrow> False
      | Some ts \<Rightarrow> ts \<noteq> [] \<and> file_type record \<notin> set ts)"

text \<open>The text a record is matched on: \<open>metadata.get('text_content', '')\<close> for a
  document, \<open>metadata.get('transcription', '')\<close> for anything else.\<close>

definition content_to_search :: "file_metadata \<Rightarrow> string" where
  "content_to_search record =
     (if file_type record = ''document''
      then (case text_content record of None \<Rightarrow> [] | Some t \<Rightarrow> t)
      else (case transcription record of None \<Rightarrow> [] | Some t \<Rightarrow> t))"

text \<open>The loop over \<open>self.metadata.items()\<close>.\<close>

fun search_loop ::
  "string \<Rightarrow> string list option \<Rightarrow> (string \<times> file_metadata) list \<Rightarrow> search_result list" where
  "search_loop query file_types [] = []"
| "search_loop query file_types ((hash, record) # items) =
     (if excluded file_types record then search_loop query file_types items
      else if py_contains (py_lower query) (py_lower (content_to_search record))
      then \<lparr>hit_file_hash = hash,
            hit_filename = filename record,
            hit_file_type = file_type record,
            relevance_snippet = get_snippet (content_to_search record) query 100,
            hit_metadata = record\<rparr> # search_loop query file_types items
      else search_loop query file_types items)"

definition search :: "rag_system \<Rightarrow> string \<Rightarrow> string list option \<Rightarrow> search_result list" where
  "search st query file_types = search_loop query file_types (DAList.impl_of (metadata st))"

section \<open>The HTTP entry points\<close>

datatype http_exception = HTTPException int string




record search_response =
  response_query :: string
  response_results :: "search_result list"
  response_count :: nat

text \<open>\<open>search_files(query, file_types)\<close>, the handler of \<open>GET /search\<close>.\<close>

definition search_files ::
  "rag_system \<Rightarrow> string \<Rightarrow> string option \<Rightarrow> http_exception + search_response" where
  "search_files st query file_types =
     (if query = [] then Inl (HTTPException 400 ''Query parameter is required'')
      else
        let types_list =
              (case file_types of
                 None \<Rightarrow> None
               | Some ft \<Rightarrow>
                   if ft = [] then None
                   else Some (map py_strip (py_split_sep CHR '','' ft)));
            results = search st query types_list
        in Inr \<lparr>response_query = query,
                response_results = results,
                response_count = length results\<rparr>)"

section \<open>Construction: \<open>MultimodalRAG.__init__\<close>\<close>

text \<open>\<open>_load_metadata\<close>: the mapping read from \<open>metadata.json\<close> when the file exists,
  the empty dictionary otherwise. The constructor is given the storage directory, the
  files already below it and the contents of \<open>metadata.json\<close>.\<close>

definition load_metadata ::
  "(string, file_metadata) alist option \<Rightarrow> (string, file_metadata) alist" where
  "load_metadata snapshot = (case snapshot of None \<Rightarrow> DAList.empty | Some m \<Rightarrow> m)"

definition init ::
  "string \<Rightarrow> (string \<Rightarrow> bytes option) \<Rightarrow> (string, file_metadata) alist option \<Rightarrow> rag_system" where
  "init dir disk snapshot =
     \<lparr>storage_dir = dir, files = disk, metadata = load_metadata snapshot,
      metadata_file = snapshot\<rparr>"

section \<open>Ingestion by declared kind\<close>

text \<open>The three ingestion entry points, indexed by the kind they declare: \<open>ingest k\<close> is
  \<open>process_document\<close>, \<open>process_video\<close> or \<open>process_audio\<close>, \<open>kind_name k\<close> the
  \<open>file_type\<close> it writes and \<open>kind_dir k\<close> the directory it stores the bytes in.\<close>

datatype kind = Document | Video | Audio

definition ingest ::
  "kind \<Rightarrow> library \<Rightarrow> rag_system \<Rightarrow> bytes \<Rightarrow> string \<Rightarrow> rag_system \<times> process_result" where
  "ingest k =
     (case k of Document \<Rightarrow> process_document | Video \<Rightarrow> process_video
      | Audio \<Rightarrow> process_audio)"

definition kind_name :: "kind \<Rightarrow> string" where
  "kind_name k = (case k of Document \<Rightarrow> ''document'' | Video \<Rightarrow> ''video'' | Audio \<Rightarrow> ''audio'')"

definition kind_dir :: "kind \<Rightarrow> rag_system \<Rightarrow> string" where
  "kind_dir k = (case k of Document \<Rightarrow> doc_dir | Video \<Rightarrow> video_dir | Audio \<Rightarrow> audio_dir)"


section \<open>A concrete library for the examples\<close>

text \<open>
  The examples below run the model in a Python that has none of the optional parsers
  installed, as \<open>test_rag.py\<close> does: every parser import fails. \<open>hashlib.md5\<close> is
  MD5 as RFC 1321 defines it, computed on integers below \<open>2 ^ 32\<close>. The codec is
  UTF-8 on bytes below 128, where decoding is the identity; the examples use no other
  byte, and the stand-in drops them.
\<close>

definition md5_s :: "nat list" where
  "md5_s =
     [7, 12, 17, 22, 7, 12, 17, 22, 7, 12, 17, 22, 7, 12, 17, 22,
      5, 9, 14, 20, 5, 9, 14, 20, 5, 9, 14, 20, 5, 9, 14, 20,
      4, 11, 16, 23, 4, 11, 16, 23, 4, 11, 16, 23, 4, 11, 16, 23,
      6, 10, 15, 21, 6, 10, 15, 21, 6, 10, 15, 21, 6, 10, 15, 21]"

definition md5_K :: "int list" where
  "md5_K =
     [3614090360, 3905402710, 606105819, 3250441966,
      4118548399, 1200080426, 2821735955, 4249261313,
      1770035416, 2336552879, 4294925233, 2304563134,
      1804603682, 4254626195, 2792965006, 1236535329,
      4129170786, 3225465664, 643717713, 3921069994,
      3593408605, 38016083, 3634488961, 3889429448,
      568446438, 3275163606, 4107603335, 1163531501,
      2850285829, 4243563512, 1735328473, 2368359562,
      4294588738, 2272392833, 1839030562, 4259657740,
      2763975236, 1272893353, 4139469664, 3200236656,
      681279174, 3936430074, 3572445317, 76029189,
      3654602809, 3873151461, 530742520, 3299628645,
      4096336452, 1126891415, 2878612391, 4237533241,
      1700485571, 2399980690, 4293915773, 2240044497,
      1873313359, 4264355552, 2734768916, 1309151649,
      4149444226, 3174756917, 718787259, 3951481745]"

definition rotl32 :: "int \<Rightarrow> nat \<Rightarrow> int" where
  "rotl32 x s = (x * 2 ^ s) mod 4294967296 + x div 2 ^ (32 - s)"

definition not32 :: "int \<Rightarrow> int" where
  "not32 x = 4294967295 - x"

definition md5_step ::
  "int list \<Rightarrow> nat \<Rightarrow> int \<times> int \<times> int \<times> int \<Rightarrow> int \<times> int \<times> int \<times> int" where
  "md5_step M i st =
     (case st of (A, B, C, D) \<Rightarrow>
        let (F, g) =
              (if i < 16 then (or (and B C) (and (not32 B) D), i)
               else if i < 32 then (or (and D B) (and (not32 D) C), (5 * i + 1) mod 16)
               else if i < 48 then (xor (xor B C) D, (3 * i + 5) mod 16)
               else (xor C (or B (not32 D)), (7 * i) mod 16));
            F = (F + A + md5_K ! i + M ! g) mod 4294967296
        in (D, (B + rotl32 F (md5_s ! i)) mod 4294967296, B, C))"

definition md5_block ::
  "int list \<Rightarrow> int \<times> int \<times> int \<times> int \<Rightarrow> int \<times> int \<times> int \<times> int" where
  "md5_block M st =
     (case st of (a, b, c, d) \<Rightarrow>
        case fold (md5_step M) [0..<64] st of (A, B, C, D) \<Rightarrow>
          ((a + A) mod 4294967296, (b + B) mod 4294967296,
           (c + C) mod 4294967296, (d + D) mod 4294967296))"

fun le_bytes :: "nat \<Rightarrow> int \<Rightarrow> int list" where
  "le_bytes 0 x = []"
| "le_bytes (Suc n) x = (x mod 256) # le_bytes n (x div 256)"

fun le_words :: "int list \<Rightarrow> int list" where
  "le_words (b0 # b1 # b2 # b3 # bs) =
     (b0 + 256 * b1 + 65536 * b2 + 16777216 * b3) # le_words bs"
| "le_words _ = []"

definition md5_pad :: "bytes \<Rightarrow> int list" where
  "md5_pad bs =
     map of_char bs @ [128] @ replicate ((64 - (length bs + 9) mod 64) mod 64) 0
       @ le_bytes 8 (8 * int (length bs))"

fun md5_blocks ::
  "nat \<Rightarrow> int list \<Rightarrow> int \<times> int \<times> int \<times> int \<Rightarrow> int \<times> int \<times> int \<times> int" where
  "md5_blocks 0 bs st = st"
| "md5_blocks (Suc n) bs st =
     md5_blocks n (drop 64 bs) (md5_block (le_words (take 64 bs)) st)"

definition hex_byte :: "int \<Rightarrow> string" where
  "hex_byte x =
     [''0123456789abcdef'' ! nat (x div 16), ''0123456789abcdef'' ! nat (x mod 16)]"

definition md5_hex :: "bytes \<Rightarrow> string" where
  "md5_hex bs =
     (let padded = md5_pad bs in
      case md5_blocks (length padded div 64) padded
             (1732584193, 4023233417, 2562383102, 271733878)
      of (a, b, c, d) \<Rightarrow>
        concat (map hex_byte (le_bytes 4 a @ le_bytes 4 b @ le_bytes 4 c @ le_bytes 4 d)))"

definition bare_python :: library where
  "bare_python =
     \<lparr>md5_hexdigest = md5_hex,
      utf8_decode_ignore = filter (\<lambda>c. (of_char c :: nat) < 128),
      pdf_page_texts = (\<lambda>_. ImportError),
      docx_paragraph_texts = (\<lambda>_. ImportError),
      video_clip_duration = (\<lambda>_ _. ImportError),
      librosa_load = (\<lambda>_ _. ImportError)\<rparr>"

text \<open>\<open>MultimodalRAG()\<close> on an empty disk: the storage directory is \<open>./data\<close>, which
  pathlib prints as \<open>data\<close>.\<close>

definition fresh :: rag_system where
  "fresh = init ''data'' (\<lambda>_. None) None"

section \<open>Facts about strings\<close>

lemma py_join_append:
  "xs \<noteq> [] \<Longrightarrow> ys \<noteq> [] \<Longrightarrow> py_join sep (xs @ ys) = py_join sep xs @ sep @ py_join sep ys"
  by (induction sep xs rule: py_join.induct) (auto simp: neq_Nil_conv)

lemma py_join_head:
  "cur \<noteq> [] \<Longrightarrow> py_join sep (py_join sep cur # ys) = py_join sep (cur @ ys)"
proof (cases ys)
  case Nil
  then show ?thesis by simp
next
  case (Cons y ys')
  assume "cur \<noteq> []"
  then have "py_join sep (cur @ (y # ys')) = py_join sep cur @ sep @ py_join sep (y # ys')"
    by (intro py_join_append) simp_all
  then show ?thesis using Cons by simp
qed

lemma py_join_cons: "ys \<noteq> [] \<Longrightarrow> py_join sep (x # ys) = x @ sep @ py_join sep ys"
  by (cases ys) simp_all

lemma py_join_flatten:
  "cur \<noteq> [] \<Longrightarrow> py_join sep (xs @ py_join sep cur # ys) = py_join sep (xs @ cur @ ys)"
proof (induction xs)
  case Nil
  then show ?case by (simp add: py_join_head)
next
  case (Cons x xs)
  then show ?case by (simp add: py_join_cons)
qed

lemma split_ws_replicate:
  "\<not> py_isspace c \<Longrightarrow> split_ws cur (replicate n c @ rest) = split_ws (cur @ replicate n c) rest"
proof (induction n arbitrary: cur)
  case 0
  then show ?case by simp
next
  case (Suc n)
  have "split_ws cur (replicate (Suc n) c @ rest) = split_ws (cur @ [c]) (replicate n c @ rest)"
    using Suc.prems by simp
  also have "\<dots> = split_ws ((cur @ [c]) @ replicate n c) rest"
    using Suc by blast
  finally show ?case by (simp add: replicate_app_Cons_same)
qed

lemma py_contains_empty: "py_contains [] s"
  by (cases s) simp_all

lemma find_from_bounds: "find_from i sub s = - 1 \<or> int i \<le> find_from i sub s"
  by (induction s arbitrary: i) (auto, force)

lemma find_from_absent: "find_from i sub s = - 1 \<longleftrightarrow> \<not> py_contains sub s"
proof (induction s arbitrary: i)
  case Nil
  then show ?case by simp
next
  case (Cons c cs)
  show ?case using Cons [of "Suc i"] find_from_bounds [of "Suc i" sub cs] by auto
qed

lemma py_slice_prefix: "0 \<le> n \<Longrightarrow> py_slice xs 0 n = take (nat n) xs"
  by (simp add: py_slice_def slice_index_def min_def)

section \<open>The chunker\<close>

lemma chunk_loop_join:
  "py_join '' '' (chunk_loop n ws acc cur sz) = py_join '' '' (acc @ cur @ ws)"
proof (induction ws arbitrary: acc cur sz)
  case Nil
  then show ?case using py_join_flatten [of cur "'' ''" acc "[]"] by simp
next
  case (Cons w ws)
  then show ?case using py_join_flatten [of cur "'' ''" acc "w # ws"] by simp
qed

text \<open>
  C5. \<open>_chunk_text\<close> is a function of the text and the chunk size alone (the model takes
  no other argument, so equal inputs give equal outputs). Joining its chunks with single
  spaces gives the words of the text joined with single spaces, and the empty text has
  no chunk.
\<close>

theorem chunk_text_rejoin:
  "py_join '' '' (chunk_text s n) = py_join '' '' (py_split s) \<and> chunk_text [] n = []"
  by (simp add: chunk_text_def chunk_loop_join py_split_def)

text \<open>
  C4. The claim bounds every chunk of more than one word by the chunk size. The loop
  restarts \<open>current_size\<close> at \<open>len(word)\<close> when it closes a chunk, but adds
  \<open>len(word) + 1\<close> for every other word: from the second chunk on the separator of the
  first word is not counted, and a chunk of two words or more can be one character longer
  than the chunk size. Here the chunk size is 5 and the second chunk, of two words, has 6
  characters; with the default size 500 used by \<open>process_document\<close>, a word of 500
  characters followed by two words of 250 gives a second chunk of 501 characters.
\<close>

theorem chunk_text_exceeds_chunk_size:
  "chunk_text ''abc de fgh'' 5 = [''abc'', ''de fgh'']
   \<and> length ''de fgh'' = 6
   \<and> py_split ''de fgh'' = [''de'', ''fgh'']
   \<and> map length
        (chunk_text (replicate 500 CHR ''a'' @ '' '' @ replicate 250 CHR ''b'' @ '' ''
                       @ replicate 250 CHR ''c'') 500) = [500, 501]"
proof -
  have small: "chunk_text ''abc de fgh'' 5 = [''abc'', ''de fgh'']"
    by code_simp
  have words: "py_split ''de fgh'' = [''de'', ''fgh'']"
    by code_simp
  have a: "\<not> py_isspace CHR ''a''" and b: "\<not> py_isspace CHR ''b''"
    and c: "\<not> py_isspace CHR ''c''" and sp: "py_isspace CHR '' ''"
    by (simp_all add: py_isspace_def)
  have "py_split (replicate 500 CHR ''a'' @ '' '' @ replicate 250 CHR ''b'' @ '' ''
                    @ replicate 250 CHR ''c'')
        = [replicate 500 CHR ''a'', replicate 250 CHR ''b'', replicate 250 CHR ''c'']"
    unfolding py_split_def
    using split_ws_replicate [OF c, of "[]" 250 "[]"]
    by (simp add: split_ws_replicate [OF a] split_ws_replicate [OF b] sp)
  then have big: "map length
        (chunk_text (replicate 500 CHR ''a'' @ '' '' @ replicate 250 CHR ''b'' @ '' ''
                       @ replicate 250 CHR ''c'') 500) = [500, 501]"
    by (simp add: chunk_text_def)
  show ?thesis using small words big by simp
qed

section \<open>Snippets\<close>

text \<open>
  C7. When the query does not occur in the text, case ignored, the snippet with the
  default context size 100 is the first 100 characters of the text followed by
  \<open>...\<close>; the marker is there also when the text has fewer than 100 characters.
\<close>

theorem get_snippet_absent:
  "\<not> py_contains (py_lower query) (py_lower s)
   \<Longrightarrow> get_snippet s query 100 = take 100 s @ ''...''"
  using find_from_absent [of 0 "py_lower query" "py_lower s"]
  by (simp add: get_snippet_def py_find_def py_slice_prefix)

theorem get_snippet_absent_witness:
  "\<not> py_contains (py_lower ''xyz'') (py_lower ''Hello World'')
   \<and> get_snippet ''Hello World'' ''xyz'' 100 = ''Hello World...''"
proof -
  have absent: "\<not> py_contains (py_lower ''xyz'') (py_lower ''Hello World'')"
    by code_simp
  show ?thesis using absent get_snippet_absent [OF absent] by simp
qed

section \<open>Search\<close>

lemma search_loop_metadata:
  "map hit_metadata (search_loop q ft items)
   = filter (\<lambda>r. \<not> excluded ft r \<and> py_contains (py_lower q) (py_lower (content_to_search r)))
       (map snd items)"
  by (induction q ft items rule: search_loop.induct) simp_all



lemma excluded_filter:
  "F \<noteq> [] \<Longrightarrow> excluded (Some F) r \<longleftrightarrow> file_type r \<notin> set F"
  by (simp add: excluded_def)

lemma excluded_no_filter: "\<not> excluded (Some []) r" "\<not> excluded None r"
  by (simp_all add: excluded_def)

text \<open>
  C3, as the code has it. For every query \<open>S\<close> and every kind filter \<open>F\<close> that is not
  empty, \<open>search\<close> returns, in the order of the index, exactly the records whose kind is
  in \<open>F\<close> and whose searchable text (the text preview of a document, the transcription
  of anything else) contains \<open>S\<close>, case ignored. A filter that is empty or absent
  excludes no kind: then the records returned are all those whose searchable text
  contains \<open>S\<close>.
\<close>

theorem search_selects:
  "(F \<noteq> []
     \<longrightarrow> map hit_metadata (search st S (Some F))
         = filter (\<lambda>r. file_type r \<in> set F
                        \<and> py_contains (py_lower S) (py_lower (content_to_search r)))
             (map snd (DAList.impl_of (metadata st))))
   \<and> map hit_metadata (search st S (Some []))
       = filter (\<lambda>r. py_contains (py_lower S) (py_lower (content_to_search r)))
           (map snd (DAList.impl_of (metadata st)))
   \<and> map hit_metadata (search st S None)
       = filter (\<lambda>r. py_contains (py_lower S) (py_lower (content_to_search r)))
           (map snd (DAList.impl_of (metadata st)))"
  by (simp add: search_def search_loop_metadata excluded_filter excluded_no_filter)

text \<open>The witness is scenario B of the specification: a document and an audio file whose
  searchable texts both contain the query; only the document passes the filter
  \<open>['document']\<close>, both pass without a filter.\<close>

theorem search_selects_witness:
  "[''document''] \<noteq> []
   \<and> map hit_metadata
       (search
          (fst (process_audio bare_python
                  (fst (process_document bare_python fresh
                          ''Speech processing needs audio'' ''talk.txt''))
                  ''RIFF'' ''talk.wav''))
          ''PROCESSING'' (Some [''document'']))
     = filter (\<lambda>r. file_type r \<in> set [''document'']
                    \<and> py_contains (py_lower ''PROCESSING'') (py_lower (content_to_search r)))
         (map snd (DAList.impl_of (metadata
            (fst (process_audio bare_python
                    (fst (process_document bare_python fresh
                            ''Speech processing needs audio'' ''talk.txt''))
                    ''RIFF'' ''talk.wav'')))))
   \<and> map hit_filename
       (search
          (fst (process_audio bare_python
                  (fst (process_document bare_python fresh
                          ''Speech processing needs audio'' ''talk.txt''))
                  ''RIFF'' ''talk.wav''))
          ''PROCESSING'' (Some [''document'']))
     = [''talk.txt'']
   \<and> map hit_filename
       (search
          (fst (process_audio bare_python
                  (fst (process_document bare_python fresh
                          ''Speech processing needs audio'' ''talk.txt''))
                  ''RIFF'' ''talk.wav''))
          ''PROCESSING'' None)
     = [''talk.txt'', ''talk.wav'']"
proof -
  have nonempty: "[''document''] \<noteq> []"
    by simp
  have filtered: "map hit_filename
       (search
          (fst (process_audio bare_python
                  (fst (process_document bare_python fresh
                          ''Speech processing needs audio'' ''talk.txt''))
                  ''RIFF'' ''talk.wav''))
          ''PROCESSING'' (Some [''document'']))
     = [''talk.txt'']"
    by code_simp
  have unfiltered: "map hit_filename
       (search
          (fst (process_audio bare_python
                  (fst (process_document bare_python fresh
                          ''Speech processing needs audio'' ''talk.txt''))
                  ''RIFF'' ''talk.wav''))
          ''PROCESSING'' None)
     = [''talk.txt'', ''talk.wav'']"
    by code_simp
  show ?thesis
    using nonempty filtered unfiltered
      search_selects [of "[''document'']"
        "fst (process_audio bare_python
                  (fst (process_document bare_python fresh
                          ''Speech processing needs audio'' ''talk.txt''))
                  ''RIFF'' ''talk.wav'')" "''PROCESSING''"]
    by blast
qed

text \<open>
  C3, as the claim states it, fails for the empty filter: given the filter \<open>[]\<close>, no
  kind is a member of it, but \<open>search\<close> returns the document.
\<close>

theorem search_empty_filter_counterexample:
  "map hit_file_type
     (search (fst (process_document bare_python fresh ''hello world'' ''a.txt''))
        ''hello'' (Some []))
   = [''document'']
   \<and> ''document'' \<notin> set ([] :: string list)"
proof -
  have "map hit_file_type
     (search (fst (process_document bare_python fresh ''hello world'' ''a.txt''))
        ''hello'' (Some []))
   = [''document'']"
    by code_simp
  then show ?thesis by simp
qed

text \<open>
  C6. The empty query matches every searchable text, so for every index and every kind
  filter \<open>search\<close> returns all the records that the filter does not exclude.
\<close>

theorem search_empty_query:
  "map hit_metadata (search st [] F)
   = filter (\<lambda>r. \<not> excluded F r) (map snd (DAList.impl_of (metadata st)))"
  by (simp add: search_def search_loop_metadata py_lower_def py_contains_empty)

text \<open>
  C10. The handler of \<open>GET /search\<close> answers the empty query with the HTTP error 400,
  whatever the index and the filter are, and it fails in no other case. A query that is
  not empty is handed to \<open>search\<close> as it is, with some kind filter, and the response
  carries what \<open>search\<close> returns: so \<open>search\<close> is called on this path with the query
  of the request only, and never with the empty query.
\<close>

theorem search_files_rejects_empty_query:
  "search_files st [] file_types = Inl (HTTPException 400 ''Query parameter is required'')
   \<and> (isl (search_files st query file_types) \<longleftrightarrow> query = [])
   \<and> (query \<noteq> []
        \<longrightarrow> (\<exists>types_list.
              search_files st query file_types
              = Inr \<lparr>response_query = query,
                     response_results = search st query types_list,
                     response_count = length (search st query types_list)\<rparr>))"
proof (intro conjI impI)
  show "search_files st [] file_types
        = Inl (HTTPException 400 ''Query parameter is required'')"
    by (simp add: search_files_def)
  show "isl (search_files st query file_types) \<longleftrightarrow> query = []"
    by (simp add: search_files_def Let_def)
  assume "query \<noteq> []"
  then show "\<exists>types_list.
     search_files st query file_types
     = Inr \<lparr>response_query = query,
            response_results = search st query types_list,
            response_count = length (search st query types_list)\<rparr>"
    by (intro exI [of _ "case file_types of
                           None \<Rightarrow> None
                         | Some ft \<Rightarrow>
                             if ft = [] then None
                             else Some (map py_strip (py_split_sep CHR '','' ft))"])
      (simp add: search_files_def Let_def)
qed

text \<open>The witness is the request \<open>GET /search?query=PROCESSING&file_types=document, audio\<close>
  on the index of scenario B.\<close>

theorem search_files_rejects_empty_query_witness:
  "''PROCESSING'' \<noteq> []
   \<and> (\<exists>types_list.
         search_files
           (fst (process_audio bare_python
                   (fst (process_document bare_python fresh
                           ''Speech processing needs audio'' ''talk.txt''))
                   ''RIFF'' ''talk.wav''))
           ''PROCESSING'' (Some ''document, audio'')
         = Inr \<lparr>response_query = ''PROCESSING'',
                response_results =
                  search
                    (fst (process_audio bare_python
                            (fst (process_document bare_python fresh
                                    ''Speech processing needs audio'' ''talk.txt''))
                            ''RIFF'' ''talk.wav''))
                    ''PROCESSING'' types_list,
                response_count =
                  length
                    (search
                       (fst (process_audio bare_python
                               (fst (process_document bare_python fresh
                                       ''Speech processing needs audio'' ''talk.txt''))
                               ''RIFF'' ''talk.wav''))
                       ''PROCESSING'' types_list)\<rparr>)
   \<and> map_sum id (map hit_filename \<circ> response_results)
         (search_files
            (fst (process_audio bare_python
                    (fst (process_document bare_python fresh
                            ''Speech processing needs audio'' ''talk.txt''))
                    ''RIFF'' ''talk.wav''))
            ''PROCESSING'' (Some ''document, audio''))
       = Inr [''talk.txt'', ''talk.wav'']"
proof -
  have nonempty: "''PROCESSING'' \<noteq> []"
    by simp
  have response: "map_sum id (map hit_filename \<circ> response_results)
         (search_files
            (fst (process_audio bare_python
                    (fst (process_document bare_python fresh
                            ''Speech processing needs audio'' ''talk.txt''))
                    ''RIFF'' ''talk.wav''))
            ''PROCESSING'' (Some ''document, audio''))
       = Inr [''talk.txt'', ''talk.wav'']"
    by code_simp
  show ?thesis
    using nonempty response
      search_files_rejects_empty_query [of
        "fst (process_audio bare_python
                (fst (process_document bare_python fresh
                        ''Speech processing needs audio'' ''talk.txt''))
                ''RIFF'' ''talk.wav'')"
        "Some ''document, audio''" "''PROCESSING''"]
    by blast
qed

section \<open>The index as a dictionary\<close>

lemma keys_update:
  "map fst (DAList.impl_of (DAList.update k v m))
   = (if k \<in> set (map fst (DAList.impl_of m)) then map fst (DAList.impl_of m)
      else map fst (DAList.impl_of m) @ [k])"
  by (simp only: DAList.update.rep_eq update_keys)

lemma key_in_update: "k \<in> set (map fst (DAList.impl_of (DAList.update k v m)))"
  by (simp add: keys_update)

lemma length_update_present:
  assumes "k \<in> set (map fst (DAList.impl_of m))"
  shows "length (DAList.impl_of (DAList.update k v m)) = length (DAList.impl_of m)"
proof -
  have "length (map fst (DAList.impl_of (DAList.update k v m)))
        = length (map fst (DAList.impl_of m))"
    using assms by (simp only: keys_update if_True)
  then show ?thesis by simp
qed

lemma entries_of_key:
  "distinct (map fst xs) \<Longrightarrow> map_of xs k = Some v \<Longrightarrow> filter (\<lambda>p. fst p = k) xs = [(k, v)]"
proof (induction xs)
  case Nil
  then show ?case by simp
next
  case (Cons a xs)
  show ?case
  proof (cases "fst a = k")
    case True
    with Cons.prems have "a = (k, v)" and "k \<notin> fst ` set xs"
      by (auto simp: prod_eq_iff)
    then have "filter (\<lambda>p. fst p = k) xs = []"
      by (auto simp: filter_empty_conv)
    with \<open>a = (k, v)\<close> show ?thesis by simp
  next
    case False
    with Cons show ?thesis by simp
  qed
qed

lemma entries_update:
  "filter (\<lambda>p. fst p = k) (DAList.impl_of (DAList.update k v m)) = [(k, v)]"
proof -
  have "map_of (DAList.impl_of (DAList.update k v m)) k = Some v"
    using DAList.lookup_update_eq [of k k v m] by (simp add: DAList.lookup.rep_eq)
  then show ?thesis
    using entries_of_key [of "DAList.impl_of (DAList.update k v m)" k v] by simp
qed



section \<open>What an ingestion does\<close>

lemmas process_defs =
  process_document_def process_video_def process_audio_def Let_def write_file_def
  save_metadata_def

lemma ingest_storage_dir: "storage_dir (fst (ingest k lib st b f)) = storage_dir st"
  by (cases k) (simp_all add: ingest_def process_defs)

lemma ingest_files:
  "files (fst (ingest k lib st b f))
   = (files st)(path_join (kind_dir k st) (get_file_hash lib b @ py_lower (path_suffix f)) \<mapsto> b)"
  by (cases k) (simp_all add: ingest_def kind_dir_def process_defs)


lemma ingest_result:
  "result_file_hash (snd (ingest k lib st b f)) = get_file_hash lib b
   \<and> status (snd (ingest k lib st b f)) = ''processed''
   \<and> result_type (snd (ingest k lib st b f)) = kind_name k"
  by (cases k) (simp_all add: ingest_def kind_name_def process_defs)

lemma ingest_index:
  "\<exists>r. metadata (fst (ingest k lib st b f)) = DAList.update (get_file_hash lib b) r (metadata st)
       \<and> file_type r = kind_name k \<and> filename r = f
       \<and> file_hash r = get_file_hash lib b
       \<and> file_path r
           = path_join (kind_dir k st) (get_file_hash lib b @ py_lower (path_suffix f))"
  by (cases k)
    (simp_all add: ingest_def kind_name_def kind_dir_def process_defs,
      (intro exI conjI, rule refl, simp_all)+)

lemma kind_dir_ingest: "kind_dir k (fst (ingest k' lib st b f)) = kind_dir k st"
  by (cases k) (simp_all add: kind_dir_def doc_dir_def video_dir_def audio_dir_def
      ingest_storage_dir)

lemma kind_dir_distinct:
  "k \<noteq> k' \<Longrightarrow> path_join (kind_dir k st) n \<noteq> path_join (kind_dir k' st) n'"
  by (cases k; cases k')
    (simp_all add: kind_dir_def doc_dir_def video_dir_def audio_dir_def path_join_def)


lemma video_record:
  "\<exists>r. DAList.lookup (metadata (fst (process_video lib st b f))) (get_file_hash lib b) = Some r
       \<and> content_to_search r = video_transcription (extract_video_info lib (file_path r) b)
       \<and> files (fst (process_video lib st b f)) (file_path r) = Some b"
  by (simp add: process_defs content_to_search_def)

lemma audio_record:
  "\<exists>r. DAList.lookup (metadata (fst (process_audio lib st b f))) (get_file_hash lib b) = Some r
       \<and> content_to_search r = audio_transcription (extract_audio_info lib (file_path r) b)
       \<and> files (fst (process_audio lib st b f)) (file_path r) = Some b"
  by (simp add: process_defs content_to_search_def)


lemma alist_update_twice: "AList.update k v (AList.update k w al) = AList.update k v al"
  by (induct al) auto

lemma update_twice: "DAList.update k v (DAList.update k w m) = DAList.update k v m"
  by (rule impl_of_inject [THEN iffD1])
    (simp only: DAList.update.rep_eq alist_update_twice)

lemma ingest_idempotent:
  "ingest k lib (fst (ingest k lib st b f)) b f = ingest k lib st b f"
  by (cases k)
    (simp_all add: ingest_def process_defs doc_dir_def video_dir_def audio_dir_def
      update_twice)




section \<open>Ingesting the same bytes again\<close>

text \<open>
  C2. For every byte string \<open>b\<close>, file name \<open>f\<close> and kind \<open>k\<close>, in every state and with
  every library: ingesting \<open>(b, f, k)\<close> twice in succession returns the same hash both
  times, the hash of \<open>b\<close>; after the second ingestion the index holds exactly one record
  under that hash; and the second ingestion leaves the number of indexed records as the
  first one left it.
\<close>

theorem ingest_twice:
  "result_file_hash (snd (ingest k lib (fst (ingest k lib st b f)) b f))
     = result_file_hash (snd (ingest k lib st b f))
   \<and> result_file_hash (snd (ingest k lib st b f)) = get_file_hash lib b
   \<and> length (filter (\<lambda>entry. fst entry = get_file_hash lib b)
               (DAList.impl_of
                  (metadata (fst (ingest k lib (fst (ingest k lib st b f)) b f)))))
       = 1
   \<and> length (DAList.impl_of (metadata (fst (ingest k lib (fst (ingest k lib st b f)) b f))))
       = length (DAList.impl_of (metadata (fst (ingest k lib st b f))))"
proof -
  obtain r1 where first:
    "metadata (fst (ingest k lib st b f))
     = DAList.update (get_file_hash lib b) r1 (metadata st)"
    using ingest_index [of k lib st b f] by blast
  obtain r2 where second:
    "metadata (fst (ingest k lib (fst (ingest k lib st b f)) b f))
     = DAList.update (get_file_hash lib b) r2 (metadata (fst (ingest k lib st b f)))"
    using ingest_index [of k lib "fst (ingest k lib st b f)" b f] by blast
  have present:
    "get_file_hash lib b \<in> set (map fst (DAList.impl_of (metadata (fst (ingest k lib st b f)))))"
    unfolding first by (rule key_in_update)
  have "length (filter (\<lambda>entry. fst entry = get_file_hash lib b)
               (DAList.impl_of
                  (metadata (fst (ingest k lib (fst (ingest k lib st b f)) b f)))))
        = 1"
    unfolding second by (simp only: entries_update list.size One_nat_def add_0)
  moreover have
    "length (DAList.impl_of (metadata (fst (ingest k lib (fst (ingest k lib st b f)) b f))))
     = length (DAList.impl_of (metadata (fst (ingest k lib st b f))))"
    unfolding second using present by (rule length_update_present)
  ultimately show ?thesis
    by (simp add: ingest_result)
qed

text \<open>
  C1, as the code has it. The index is keyed by the content hash alone, so it holds one
  record for each distinct content, not one for each pair of a content and a kind. When
  the bytes \<open>b\<close> are ingested under a kind \<open>k1\<close> and then again under a kind \<open>k2\<close>,
  the index holds exactly one record under the hash of \<open>b\<close>, and its kind is \<open>k2\<close>:
  the second ingestion replaces the record of the first, and the index keeps its size.
  The storage does hold the bytes once for each kind: they are at the path of the first
  ingestion and at the path of the second, and the two paths differ when the kinds do.
\<close>

theorem same_bytes_two_kinds:
  "(let h = get_file_hash lib b;
        st1 = fst (ingest k1 lib st b f1);
        st2 = fst (ingest k2 lib st1 b f2);
        path1 = path_join (kind_dir k1 st) (h @ py_lower (path_suffix f1));
        path2 = path_join (kind_dir k2 st) (h @ py_lower (path_suffix f2))
    in map (\<lambda>entry. file_type (snd entry))
         (filter (\<lambda>entry. fst entry = h) (DAList.impl_of (metadata st2)))
       = [kind_name k2]
       \<and> length (DAList.impl_of (metadata st2)) = length (DAList.impl_of (metadata st1))
       \<and> files st2 path1 = Some b
       \<and> files st2 path2 = Some b
       \<and> (k1 \<noteq> k2 \<longrightarrow> path1 \<noteq> path2))"
proof -
  obtain r1 where first:
    "metadata (fst (ingest k1 lib st b f1))
     = DAList.update (get_file_hash lib b) r1 (metadata st)"
    using ingest_index [of k1 lib st b f1] by blast
  obtain r2 where second:
    "metadata (fst (ingest k2 lib (fst (ingest k1 lib st b f1)) b f2))
     = DAList.update (get_file_hash lib b) r2 (metadata (fst (ingest k1 lib st b f1)))"
    and kind: "file_type r2 = kind_name k2"
    using ingest_index [of k2 lib "fst (ingest k1 lib st b f1)" b f2] by blast
  have present:
    "get_file_hash lib b
     \<in> set (map fst (DAList.impl_of (metadata (fst (ingest k1 lib st b f1)))))"
    unfolding first by (rule key_in_update)
  have one: "map (\<lambda>entry. file_type (snd entry))
         (filter (\<lambda>entry. fst entry = get_file_hash lib b)
            (DAList.impl_of
               (metadata (fst (ingest k2 lib (fst (ingest k1 lib st b f1)) b f2)))))
       = [kind_name k2]"
    unfolding second by (simp add: entries_update kind)
  have size:
    "length (DAList.impl_of
               (metadata (fst (ingest k2 lib (fst (ingest k1 lib st b f1)) b f2))))
     = length (DAList.impl_of (metadata (fst (ingest k1 lib st b f1))))"
    unfolding second using present by (rule length_update_present)
  have stored:
    "files (fst (ingest k2 lib (fst (ingest k1 lib st b f1)) b f2))
       (path_join (kind_dir k1 st) (get_file_hash lib b @ py_lower (path_suffix f1)))
     = Some b"
    "files (fst (ingest k2 lib (fst (ingest k1 lib st b f1)) b f2))
       (path_join (kind_dir k2 st) (get_file_hash lib b @ py_lower (path_suffix f2)))
     = Some b"
    by (simp_all add: ingest_files kind_dir_ingest)
  have apart:
    "k1 \<noteq> k2
     \<longrightarrow> path_join (kind_dir k1 st) (get_file_hash lib b @ py_lower (path_suffix f1))
         \<noteq> path_join (kind_dir k2 st) (get_file_hash lib b @ py_lower (path_suffix f2))"
    by (simp add: kind_dir_distinct)
  from one size stored apart show ?thesis
    unfolding Let_def by (intro conjI)
qed

text \<open>The witness: the bytes \<open>hello\<close> uploaded as the video \<open>a.mp4\<close> and then as the
  audio file \<open>a.mp3\<close>.\<close>

theorem same_bytes_two_kinds_witness:
  "Video \<noteq> Audio
   \<and> path_join (kind_dir Video fresh)
        (get_file_hash bare_python ''hello'' @ py_lower (path_suffix ''a.mp4''))
     \<noteq> path_join (kind_dir Audio fresh)
         (get_file_hash bare_python ''hello'' @ py_lower (path_suffix ''a.mp3''))
   \<and> map (\<lambda>entry. file_type (snd entry))
        (filter (\<lambda>entry. fst entry = get_file_hash bare_python ''hello'')
           (DAList.impl_of
              (metadata
                 (fst (ingest Audio bare_python
                         (fst (ingest Video bare_python fresh ''hello'' ''a.mp4''))
                         ''hello'' ''a.mp3'')))))
     = [kind_name Audio]"
  using same_bytes_two_kinds [of bare_python "''hello''" Video fresh "''a.mp4''" Audio "''a.mp3''"]
  by (simp add: Let_def)

text \<open>
  C1, as the claim states it, fails: the bytes \<open>hello\<close> ingested as a video and then as
  an audio file are stored twice, but they are not indexed as two independent records.
  The index holds one record for them, the audio one, and the video can no longer be
  found.
\<close>

theorem same_bytes_two_kinds_counterexample:
  "map (\<lambda>entry. (fst entry, filename (snd entry), file_type (snd entry)))
     (DAList.impl_of
        (metadata
           (fst (process_audio bare_python
                   (fst (process_video bare_python fresh ''hello'' ''a.mp4''))
                   ''hello'' ''a.mp3''))))
   = [(''5d41402abc4b2a76b9719d911017c592'', ''a.mp3'', ''audio'')]
   \<and> files
        (fst (process_audio bare_python
                (fst (process_video bare_python fresh ''hello'' ''a.mp4''))
                ''hello'' ''a.mp3''))
        ''data/videos/5d41402abc4b2a76b9719d911017c592.mp4''
     = Some ''hello''
   \<and> files
        (fst (process_audio bare_python
                (fst (process_video bare_python fresh ''hello'' ''a.mp4''))
                ''hello'' ''a.mp3''))
        ''data/audio/5d41402abc4b2a76b9719d911017c592.mp3''
     = Some ''hello''
   \<and> map hit_filename
        (search
           (fst (process_audio bare_python
                   (fst (process_video bare_python fresh ''hello'' ''a.mp4''))
                   ''hello'' ''a.mp3''))
           [] None)
     = [''a.mp3'']"
proof -
  have index: "map (\<lambda>entry. (fst entry, filename (snd entry), file_type (snd entry)))
     (DAList.impl_of
        (metadata
           (fst (process_audio bare_python
                   (fst (process_video bare_python fresh ''hello'' ''a.mp4''))
                   ''hello'' ''a.mp3''))))
   = [(''5d41402abc4b2a76b9719d911017c592'', ''a.mp3'', ''audio'')]"
    by code_simp
  have video: "files
        (fst (process_audio bare_python
                (fst (process_video bare_python fresh ''hello'' ''a.mp4''))
                ''hello'' ''a.mp3''))
        ''data/videos/5d41402abc4b2a76b9719d911017c592.mp4''
     = Some ''hello''"
    by code_simp
  have audio: "files
        (fst (process_audio bare_python
                (fst (process_video bare_python fresh ''hello'' ''a.mp4''))
                ''hello'' ''a.mp3''))
        ''data/audio/5d41402abc4b2a76b9719d911017c592.mp3''
     = Some ''hello''"
    by code_simp
  have found: "map hit_filename
        (search
           (fst (process_audio bare_python
                   (fst (process_video bare_python fresh ''hello'' ''a.mp4''))
                   ''hello'' ''a.mp3''))
           [] None)
     = [''a.mp3'']"
    by code_simp
  from index video audio found show ?thesis
    by (intro conjI)
qed

section \<open>The text preview is all that search reads\<close>



section \<open>Uploads whose extractor fails\<close>








end
